theory Spec2Isabelle
  imports Complex_Main "HOL-Library.Word" "HOL-Library.AList"
begin

section \<open>Credential encryption subsystem of the Restful Booker automation framework\<close>

text \<open>
  This theory is a shallow embedding of three TypeScript classes:
  \<^item> \<^verbatim>\<open>SecureKeyGenerator\<close> (src/cryptography/keyManagement/secureKeyGenerator.ts),
  \<^item> \<^verbatim>\<open>EncryptionService\<close> (src/cryptography/services/encryptionService.ts),
  \<^item> \<^verbatim>\<open>EnvironmentEncryptionManager\<close>
    (src/cryptography/services/environmentEncryptionManager.ts),

  together with the parts of \<^verbatim>\<open>AsyncFileManager\<close> and \<^verbatim>\<open>CRYPTO_CONFIG\<close> they call.

  Conventions of the embedding:
  \<^item> A JavaScript string is a \<^typ>\<open>string\<close>; a character stands for one code unit in the
    range U+0000 .. U+00FF.
  \<^item> A thrown exception is the \<open>Inl\<close> branch of a sum; \<^verbatim>\<open>ErrorHandler.captureError\<close> only
    logs and never throws, so every \<^verbatim>\<open>catch (error) { captureError(...); throw error; }\<close>
    block re-raises the same error and is the identity on results.
  \<^item> A \<^verbatim>\<open>Record<string, string>\<close> is an association list in insertion order with unique
    keys; assignment to an existing key keeps the key's position. Property names are
    environment-variable names: names that the JavaScript runtime treats specially
    (canonical array indices, names inherited from \<^verbatim>\<open>Object.prototype\<close>) are outside the
    model.
  \<^item> Everything supplied by the runtime and by third-party libraries (random bytes, base64,
    UTF-8, Argon2, Web Crypto, \<^verbatim>\<open>JSON\<close>, \<^verbatim>\<open>path\<close>, \<^verbatim>\<open>fs\<close>) is a field of the record
    \<open>platform\<close>. Theorems quantify over every platform and name the library contracts they
    rely on.
  \<^item> The state that calls can change is the record \<open>world\<close>: the files on disk, the list of
    file-system calls made so far, and the read position in the entropy stream.
\<close>

subsection \<open>JavaScript strings\<close>

text \<open>White space and line terminators removed by \<^verbatim>\<open>String.prototype.trim\<close>, within the
  modelled range of code units: TAB, LF, VT, FF, CR, SPACE and NO-BREAK SPACE.\<close>

definition is_space :: "char \<Rightarrow> bool" where
  "is_space c \<longleftrightarrow> (of_char c :: nat) \<in> {9, 10, 11, 12, 13, 32, 160}"

definition trim :: "string \<Rightarrow> string" where
  "trim s = rev (dropWhile is_space (rev (dropWhile is_space s)))"

definition startsWith :: "string \<Rightarrow> string \<Rightarrow> bool" where
  "startsWith s p \<longleftrightarrow> take (length p) s = p"

definition endsWith :: "string \<Rightarrow> string \<Rightarrow> bool" where
  "endsWith s p \<longleftrightarrow> length p \<le> length s \<and> drop (length s - length p) s = p"

text \<open>A template-literal part \<^verbatim>\<open>'${s}'\<close>: the text between two apostrophes.\<close>

definition quoted :: "string \<Rightarrow> string" where
  "quoted s = CHR 0x27 # s @ [CHR 0x27]"

text \<open>\<^verbatim>\<open>s.split(c)\<close> and \<^verbatim>\<open>parts.join(c)\<close> for a one-character separator.\<close>

fun split_on :: "char \<Rightarrow> string \<Rightarrow> string list" where
  "split_on c [] = [[]]"
| "split_on c (x # xs) =
     (if x = c then [] # split_on c xs
      else (case split_on c xs of [] \<Rightarrow> [[x]] | part # parts \<Rightarrow> (x # part) # parts))"

fun join_with :: "char \<Rightarrow> string list \<Rightarrow> string" where
  "join_with c [] = []"
| "join_with c [part] = part"
| "join_with c (part # parts) = part @ c # join_with c parts"

subsection \<open>JavaScript values, errors, log output\<close>

type_synonym byte = "8 word"

datatype js_value =
    JUndefined
  | JNull
  | JBool bool
  | JNum real
  | JStr string
  | JArr "js_value list"
  | JObj "(string \<times> js_value) list"

text \<open>Truthiness as tested by \<^verbatim>\<open>!x\<close> and \<^verbatim>\<open>if (x)\<close>.\<close>

fun truthy :: "js_value \<Rightarrow> bool" where
  "truthy JUndefined = False"
| "truthy JNull = False"
| "truthy (JBool b) = b"
| "truthy (JNum n) = (n \<noteq> 0)"
| "truthy (JStr s) = (s \<noteq> [])"
| "truthy (JArr xs) = True"
| "truthy (JObj fs) = True"

text \<open>Reading one of the properties \<^verbatim>\<open>salt\<close>, \<^verbatim>\<open>iv\<close>, \<^verbatim>\<open>cipherText\<close> of a value other than
  \<^verbatim>\<open>null\<close> and \<^verbatim>\<open>undefined\<close>: only an object can have them, every other value yields
  \<^verbatim>\<open>undefined\<close>.\<close>

fun get_property :: "js_value \<Rightarrow> string \<Rightarrow> js_value" where
  "get_property (JObj fs) name = (case map_of fs name of None \<Rightarrow> JUndefined | Some v \<Rightarrow> v)"
| "get_property v name = JUndefined"

text \<open>\<^verbatim>\<open>typeof v === 'object'\<close> and \<^verbatim>\<open>name in v\<close> (for the three property names above).\<close>

fun typeof_object :: "js_value \<Rightarrow> bool" where
  "typeof_object JNull = True"
| "typeof_object (JArr xs) = True"
| "typeof_object (JObj fs) = True"
| "typeof_object v = False"

fun has_property :: "string \<Rightarrow> js_value \<Rightarrow> bool" where
  "has_property name (JObj fs) = (name \<in> fst ` set fs)"
| "has_property name v = False"

datatype error =
    Error string
  | SyntaxError
  | TypeError
  | OperationError
  | SystemError string

text \<open>\<^verbatim>\<open>ErrorHandler.logAndThrow(message, source)\<close> throws \<^verbatim>\<open>new Error(message)\<close>.\<close>

definition logAndThrow :: "string \<Rightarrow> string \<Rightarrow> error" where
  "logAndThrow message source = Error message"

datatype log_entry = Info string | Warn string

subsection \<open>Configuration\<close>

record byte_lengths =
  IV :: int
  WEB_CRYPTO_IV :: int
  SALT :: int
  SECRET_KEY :: int

record argon2_parameters =
  MEMORY_COST :: int
  TIME_COST :: int
  PARALLELISM :: int

record crypto_config =
  BYTE_LENGTHS :: byte_lengths
  ARGON2_PARAMETERS :: argon2_parameters

definition CRYPTO_CONFIG :: crypto_config where
  "CRYPTO_CONFIG =
     \<lparr>BYTE_LENGTHS = \<lparr>IV = 16, WEB_CRYPTO_IV = 12, SALT = 32, SECRET_KEY = 32\<rparr>,
      ARGON2_PARAMETERS = \<lparr>MEMORY_COST = 262144, TIME_COST = 4, PARALLELISM = 3\<rparr>\<rparr>"

subsection \<open>The platform and the world\<close>

datatype argon2_type = Argon2d | Argon2i | Argon2id

record argon2_options =
  opt_type :: argon2_type
  opt_hashLength :: int
  opt_salt :: "byte list"
  opt_memoryCost :: int
  opt_timeCost :: int
  opt_parallelism :: int
  opt_raw :: bool

record platform =
  entropy :: "nat \<Rightarrow> byte"
  window_crypto :: bool
  base64_encode :: "byte list \<Rightarrow> string"
  base64_decode :: "string \<Rightarrow> byte list"
  buffer_from_value :: "js_value \<Rightarrow> error + byte list"
  text_encode :: "string \<Rightarrow> byte list"
  text_decode :: "byte list \<Rightarrow> string"
  argon2_hash :: "string \<Rightarrow> argon2_options \<Rightarrow> error + byte list"
  subtle_importKey :: "byte list \<Rightarrow> error + byte list"
  subtle_encrypt :: "byte list \<Rightarrow> byte list \<Rightarrow> byte list \<Rightarrow> error + byte list"
  subtle_decrypt :: "byte list \<Rightarrow> byte list \<Rightarrow> byte list \<Rightarrow> error + byte list"
  JSON_parse :: "string \<Rightarrow> js_value option"
  JSON_stringify :: "js_value \<Rightarrow> string"
  process_cwd :: string
  path_normalize :: "string \<Rightarrow> string"
  path_resolve :: "string \<Rightarrow> string"
  path_resolve2 :: "string \<Rightarrow> string \<Rightarrow> string"
  path_isAbsolute :: "string \<Rightarrow> bool"
  path_join :: "string \<Rightarrow> string \<Rightarrow> string"
  path_dirname :: "string \<Rightarrow> string"
  fs_mkdir_error :: "string \<Rightarrow> error option"
  fs_read_error :: "string \<Rightarrow> error option"
  fs_write_error :: "string \<Rightarrow> error option"

text \<open>
  Reading of the fields:
  \<^item> \<open>entropy\<close> is the stream of bytes the system's random source will deliver;
    \<open>window_crypto\<close> says whether \<^verbatim>\<open>window.crypto\<close> exists.
  \<^item> \<open>base64_encode\<close> is \<^verbatim>\<open>buffer.toString('base64')\<close>, \<open>base64_decode\<close> is
    \<^verbatim>\<open>Buffer.from(s, 'base64')\<close> on a string and \<open>buffer_from_value\<close> the same call on a
    value that is not a string.
  \<^item> \<open>text_encode\<close>, \<open>text_decode\<close> are \<^verbatim>\<open>TextEncoder.encode\<close>, \<^verbatim>\<open>TextDecoder.decode\<close>.
  \<^item> \<open>argon2_hash\<close> is \<^verbatim>\<open>argon2.hash\<close>; \<open>subtle_importKey\<close>, \<open>subtle_encrypt\<close>,
    \<open>subtle_decrypt\<close> are the \<^verbatim>\<open>crypto.subtle\<close> calls for AES-GCM, with arguments key, iv,
    data.
  \<^item> \<open>JSON_parse\<close> returns \<open>None\<close> where \<^verbatim>\<open>JSON.parse\<close> throws a \<^verbatim>\<open>SyntaxError\<close>.
  \<^item> \<open>fs_mkdir_error\<close>, \<open>fs_read_error\<close>, \<open>fs_write_error\<close> give the error with which the
    operating system refuses the call on a path, if it does.
\<close>

datatype fs_event = Mkdir string | ReadFile string | WriteFile string string

record world =
  files :: "string \<rightharpoonup> string"
  fs_trace :: "fs_event list"
  rng_pos :: nat

subsection \<open>SecureKeyGenerator\<close>

definition validateLength :: "int \<Rightarrow> string \<Rightarrow> error + unit" where
  "validateLength len methodName =
     (if len \<le> 0 then Inl (logAndThrow ''Length must be greater than zero.'' methodName)
      else Inr ())"

text \<open>\<^verbatim>\<open>crypto.randomBytes(n)\<close> and \<^verbatim>\<open>window.crypto.getRandomValues(new Uint8Array(n))\<close>
  both deliver the next \<open>n\<close> bytes of the entropy stream.\<close>

definition randomBytes :: "platform \<Rightarrow> int \<Rightarrow> world \<Rightarrow> byte list \<times> world" where
  "randomBytes P n w =
     (map (entropy P) [rng_pos w ..< rng_pos w + nat n], w\<lparr>rng_pos := rng_pos w + nat n\<rparr>)"

definition getRandomValues :: "platform \<Rightarrow> int \<Rightarrow> world \<Rightarrow> byte list \<times> world" where
  "getRandomValues P n w =
     (map (entropy P) [rng_pos w ..< rng_pos w + nat n], w\<lparr>rng_pos := rng_pos w + nat n\<rparr>)"


definition WEB_CRYPTO_IV_LENGTH :: int where
  "WEB_CRYPTO_IV_LENGTH = WEB_CRYPTO_IV (BYTE_LENGTHS CRYPTO_CONFIG)"

definition SALT_LENGTH :: int where
  "SALT_LENGTH = SALT (BYTE_LENGTHS CRYPTO_CONFIG)"


text \<open>A parameter with a default value is an \<open>option\<close>: \<open>None\<close> is the omitted argument.\<close>

definition default_arg :: "'a \<Rightarrow> 'a option \<Rightarrow> 'a" where
  "default_arg d arg = (case arg of None \<Rightarrow> d | Some x \<Rightarrow> x)"



definition isWebCryptoAvailable :: "platform \<Rightarrow> bool" where
  "isWebCryptoAvailable P = window_crypto P"

definition generateSecureUint8Array :: "platform \<Rightarrow> int \<Rightarrow> world \<Rightarrow> (error + byte list) \<times> world" where
  "generateSecureUint8Array P len w =
     (case validateLength len ''generateSecureUint8Array'' of
        Inl e \<Rightarrow> (Inl e, w)
      | Inr _ \<Rightarrow>
          (if isWebCryptoAvailable P
           then (let (bytes, w') = getRandomValues P len w in (Inr bytes, w'))
           else (let (bytes, w') = randomBytes P len w in (Inr bytes, w'))))"

definition generateWebCryptoIV :: "platform \<Rightarrow> int option \<Rightarrow> world \<Rightarrow> (error + byte list) \<times> world" where
  "generateWebCryptoIV P arg w =
     (let len = default_arg WEB_CRYPTO_IV_LENGTH arg in
      case validateLength len ''generateWebCryptoIV'' of
        Inl e \<Rightarrow> (Inl e, w)
      | Inr _ \<Rightarrow>
          (case generateSecureUint8Array P len w of
             (Inl e, w') \<Rightarrow> (Inl e, w')
           | (Inr secureUint8Array, w') \<Rightarrow> (Inr secureUint8Array, w')))"

definition generateBase64Salt :: "platform \<Rightarrow> int option \<Rightarrow> world \<Rightarrow> (error + string) \<times> world" where
  "generateBase64Salt P arg w =
     (let len = default_arg SALT_LENGTH arg in
      case validateLength len ''generateBase64Salt'' of
        Inl e \<Rightarrow> (Inl e, w)
      | Inr _ \<Rightarrow> (let (bytes, w') = randomBytes P len w in (Inr (base64_encode P bytes), w')))"




subsection \<open>EncryptionService\<close>

record encryption_parameters =
  salt :: string
  iv :: string
  cipherText :: string

text \<open>\<^verbatim>\<open>Buffer.from(v, 'base64')\<close>.\<close>

definition Buffer_from_base64 :: "platform \<Rightarrow> js_value \<Rightarrow> error + byte list" where
  "Buffer_from_base64 P v = (case v of JStr s \<Rightarrow> Inr (base64_decode P s) | _ \<Rightarrow> buffer_from_value P v)"

definition argon2Hashing :: "platform \<Rightarrow> string \<Rightarrow> argon2_options \<Rightarrow> error + byte list" where
  "argon2Hashing P secretKey options = argon2_hash P secretKey (options\<lparr>opt_raw := True\<rparr>)"

definition importKeyForCrypto :: "platform \<Rightarrow> byte list \<Rightarrow> error + byte list" where
  "importKeyForCrypto P keyBuffer = subtle_importKey P keyBuffer"

definition deriveKeyWithArgon2 :: "platform \<Rightarrow> string \<Rightarrow> js_value \<Rightarrow> error + byte list" where
  "deriveKeyWithArgon2 P secretKey saltText =
     (case Buffer_from_base64 P saltText of
        Inl e \<Rightarrow> Inl e
      | Inr saltBuffer \<Rightarrow>
          (let options =
                 \<lparr>opt_type = Argon2id,
                  opt_hashLength = SECRET_KEY (BYTE_LENGTHS CRYPTO_CONFIG),
                  opt_salt = saltBuffer,
                  opt_memoryCost = MEMORY_COST (ARGON2_PARAMETERS CRYPTO_CONFIG),
                  opt_timeCost = TIME_COST (ARGON2_PARAMETERS CRYPTO_CONFIG),
                  opt_parallelism = PARALLELISM (ARGON2_PARAMETERS CRYPTO_CONFIG),
                  opt_raw = True\<rparr>
           in case argon2Hashing P secretKey options of
                Inl e \<Rightarrow> Inl e
              | Inr keyBuffer \<Rightarrow> importKeyForCrypto P keyBuffer))"

definition encryptBuffer :: "platform \<Rightarrow> byte list \<Rightarrow> byte list \<Rightarrow> string \<Rightarrow> error + byte list" where
  "encryptBuffer P webCryptoIv key value = subtle_encrypt P key webCryptoIv (text_encode P value)"

definition decryptBuffer :: "platform \<Rightarrow> byte list \<Rightarrow> byte list \<Rightarrow> byte list \<Rightarrow> error + byte list" where
  "decryptBuffer P ivBuffer key cipherBuffer = subtle_decrypt P key ivBuffer cipherBuffer"

definition encrypt :: "platform \<Rightarrow> string \<Rightarrow> string \<Rightarrow> world \<Rightarrow> (error + encryption_parameters) \<times> world" where
  "encrypt P value secretKey w =
     (case generateBase64Salt P None w of
        (Inl e, w1) \<Rightarrow> (Inl e, w1)
      | (Inr saltText, w1) \<Rightarrow>
          (case generateWebCryptoIV P None w1 of
             (Inl e, w2) \<Rightarrow> (Inl e, w2)
           | (Inr webCryptoIv, w2) \<Rightarrow>
               (case deriveKeyWithArgon2 P secretKey (JStr saltText) of
                  Inl e \<Rightarrow> (Inl e, w2)
                | Inr key \<Rightarrow>
                    (case encryptBuffer P webCryptoIv key value of
                       Inl e \<Rightarrow> (Inl e, w2)
                     | Inr encryptedBuffer \<Rightarrow>
                         (Inr \<lparr>salt = saltText,
                               iv = base64_encode P webCryptoIv,
                               cipherText = base64_encode P encryptedBuffer\<rparr>, w2)))))"

text \<open>Destructuring \<^verbatim>\<open>const { salt, iv, cipherText } = params\<close> throws a \<^verbatim>\<open>TypeError\<close> on
  \<^verbatim>\<open>null\<close>; on every other value it reads the three properties.\<close>

definition validateParsedData :: "js_value \<Rightarrow> error + unit" where
  "validateParsedData params =
     (if params = JNull \<or> params = JUndefined then Inl TypeError
      else if \<not> truthy (get_property params ''salt'')
              \<or> \<not> truthy (get_property params ''iv'')
              \<or> \<not> truthy (get_property params ''cipherText'')
      then Inl (logAndThrow ''Missing required properties in encryption parameters.''
                  ''validateParsedData'')
      else Inr ())"

definition parseEncryptedData :: "platform \<Rightarrow> string \<Rightarrow> error + js_value" where
  "parseEncryptedData P encryptedData =
     (if encryptedData = [] then Inl (logAndThrow ''Encrypted data is required.'' ''parseEncryptedData'')
      else (case JSON_parse P encryptedData of
              None \<Rightarrow> Inl SyntaxError
            | Some parsedData \<Rightarrow>
                (case validateParsedData parsedData of
                   Inl e \<Rightarrow> Inl e
                 | Inr _ \<Rightarrow> Inr parsedData)))"

definition decrypt :: "platform \<Rightarrow> string \<Rightarrow> string \<Rightarrow> error + string" where
  "decrypt P encryptedData secretKey =
     (case parseEncryptedData P encryptedData of
        Inl e \<Rightarrow> Inl e
      | Inr parsedData \<Rightarrow>
          (case deriveKeyWithArgon2 P secretKey (get_property parsedData ''salt'') of
             Inl e \<Rightarrow> Inl e
           | Inr key \<Rightarrow>
               (case Buffer_from_base64 P (get_property parsedData ''iv'') of
                  Inl e \<Rightarrow> Inl e
                | Inr ivBuffer \<Rightarrow>
                    (case Buffer_from_base64 P (get_property parsedData ''cipherText'') of
                       Inl e \<Rightarrow> Inl e
                     | Inr cipherBuffer \<Rightarrow>
                         (case decryptBuffer P ivBuffer key cipherBuffer of
                            Inl e \<Rightarrow> Inl e
                          | Inr decryptedBuffer \<Rightarrow> Inr (text_decode P decryptedBuffer))))))"

subsection \<open>AsyncFileManager (the operations the manager calls)\<close>









subsection \<open>EnvironmentEncryptionManager\<close>

type_synonym js_record = "(string \<times> string) list"

text \<open>\<^verbatim>\<open>Object.assign(target, source)\<close> on records.\<close>

definition Object_assign :: "js_record \<Rightarrow> js_record \<Rightarrow> js_record" where
  "Object_assign target source = fold (\<lambda>(key, value). AList.update key value) source target"




definition parseEnvironmentLine :: "string \<Rightarrow> (string \<times> string) option" where
  "parseEnvironmentLine line =
     (let trimmedLine = trim line in
      if trimmedLine = [] \<or> CHR ''='' \<notin> set trimmedLine then None
      else (case split_on CHR ''='' trimmedLine of
              [] \<Rightarrow> None
            | key # valueParts \<Rightarrow>
                (let value = join_with CHR ''='' valueParts in
                 if key \<noteq> [] \<and> value \<noteq> [] then Some (trim key, trim value) else None)))"

fun extractInto :: "js_record \<Rightarrow> string list \<Rightarrow> js_record" where
  "extractInto variables [] = variables"
| "extractInto variables (line # lines) =
     (case parseEnvironmentLine line of
        None \<Rightarrow> extractInto variables lines
      | Some (key, value) \<Rightarrow> extractInto (AList.update key value variables) lines)"

definition extractEnvironmentVariables :: "string list \<Rightarrow> js_record" where
  "extractEnvironmentVariables lines = extractInto [] lines"

text \<open>The loop of \<^verbatim>\<open>findEnvironmentVariableByKey\<close> over \<^verbatim>\<open>Object.entries\<close>, with the
  message it logs.\<close>

fun findByValue :: "js_record \<Rightarrow> string \<Rightarrow> js_record \<times> log_entry list" where
  "findByValue [] lookupValue = ([], [])"
| "findByValue ((key, value) # entries) lookupValue =
     (if value = lookupValue
      then ([(key, value)], [Info (''Environment variable key '' @ quoted key @ '' found'')])
      else findByValue entries lookupValue)"

definition findEnvironmentVariableByKey :: "js_record \<Rightarrow> string \<Rightarrow> js_record \<times> log_entry list" where
  "findEnvironmentVariableByKey allEnvVariables lookupValue =
     (case map_of allEnvVariables lookupValue of
        None \<Rightarrow> findByValue allEnvVariables lookupValue
      | Some value \<Rightarrow>
          (if value \<noteq> [] then ([(lookupValue, value)], [])
           else findByValue allEnvVariables lookupValue))"

text \<open>\<^verbatim>\<open>found\<close> is always an object, and every object is truthy, the empty one too.\<close>

definition truthy_record :: "js_record \<Rightarrow> bool" where
  "truthy_record found = True"

fun resolveLoop :: "js_record \<Rightarrow> string list \<Rightarrow> js_record \<times> log_entry list \<Rightarrow> js_record \<times> log_entry list" where
  "resolveLoop allEnvVariables [] (variablesToEncrypt, logged) = (variablesToEncrypt, logged)"
| "resolveLoop allEnvVariables (lookupValue # rest) (variablesToEncrypt, logged) =
     (let (found, log1) = findEnvironmentVariableByKey allEnvVariables lookupValue;
          log2 = (if \<not> truthy_record found
                  then [Warn (''Environment variable with key or value '' @ quoted lookupValue
                                @ '' not found in the file.'')]
                  else [])
      in resolveLoop allEnvVariables rest
           (Object_assign variablesToEncrypt found, logged @ log1 @ log2))"

definition resolveVariablesToEncrypt ::
  "js_record \<Rightarrow> string list option \<Rightarrow> js_record \<times> log_entry list" where
  "resolveVariablesToEncrypt allEnvVariables envVariables =
     (case envVariables of
        None \<Rightarrow> (Object_assign [] allEnvVariables, [])
      | Some selectors \<Rightarrow>
          (if length selectors > 0 then resolveLoop allEnvVariables selectors ([], [])
           else (Object_assign [] allEnvVariables, [])))"

definition isAlreadyEncrypted :: "platform \<Rightarrow> string \<Rightarrow> bool" where
  "isAlreadyEncrypted P value =
     (if value = [] then False
      else (let trimmedValue = trim value in
            if \<not> (startsWith trimmedValue ''{'' \<and> endsWith trimmedValue ''}'') then False
            else (case JSON_parse P value of
                    None \<Rightarrow> False
                  | Some parsedData \<Rightarrow>
                      typeof_object parsedData \<and> parsedData \<noteq> JNull
                      \<and> has_property ''salt'' parsedData
                      \<and> has_property ''iv'' parsedData
                      \<and> has_property ''cipherText'' parsedData)))"

text \<open>The result of \<^verbatim>\<open>encryptValueIfPlaintext\<close> is the value itself, a string, or a fresh
  envelope object.\<close>

datatype string_or_envelope = TheString string | TheEnvelope encryption_parameters

definition encryptValueIfPlaintext ::
  "platform \<Rightarrow> string \<Rightarrow> string \<Rightarrow> world \<Rightarrow> (error + string_or_envelope) \<times> world" where
  "encryptValueIfPlaintext P value secretKey w =
     (if isAlreadyEncrypted P value then (Inr (TheString value), w)
      else (case encrypt P value secretKey w of
              (Inl e, w') \<Rightarrow> (Inl e, w')
            | (Inr encryptedResult, w') \<Rightarrow>
                (Inr (TheEnvelope \<lparr>salt = salt encryptedResult,
                                     iv = iv encryptedResult,
                                     cipherText = cipherText encryptedResult\<rparr>), w')))"

definition updateEnvironmentFileLines :: "string list \<Rightarrow> string \<Rightarrow> string \<Rightarrow> string list" where
  "updateEnvironmentFileLines existingLines envVariable value =
     (let isUpdated = (\<exists>line \<in> set existingLines. startsWith line (envVariable @ ''=''));
          updatedLines = map (\<lambda>line. if startsWith line (envVariable @ ''='')
                                       then envVariable @ ''='' @ value else line) existingLines
      in if \<not> isUpdated then updatedLines @ [envVariable @ ''='' @ value] else updatedLines)"

text \<open>What \<^verbatim>\<open>JSON.stringify\<close>, \<^verbatim>\<open>!x\<close> and \<^verbatim>\<open>x === value\<close> see of that result.\<close>

definition envelope_object :: "encryption_parameters \<Rightarrow> js_value" where
  "envelope_object e =
     JObj [(''salt'', JStr (salt e)), (''iv'', JStr (iv e)), (''cipherText'', JStr (cipherText e))]"

fun to_js_value :: "string_or_envelope \<Rightarrow> js_value" where
  "to_js_value (TheString s) = JStr s"
| "to_js_value (TheEnvelope e) = envelope_object e"

fun strictly_equals :: "string_or_envelope \<Rightarrow> string \<Rightarrow> bool" where
  "strictly_equals (TheString s) value = (s = value)"
| "strictly_equals (TheEnvelope e) value = False"

fun encryptLoop ::
  "platform \<Rightarrow> string \<Rightarrow> js_record \<Rightarrow> string list \<Rightarrow> nat \<Rightarrow> world
     \<Rightarrow> (error + string list \<times> nat) \<times> world" where
  "encryptLoop P secretKeyVariable [] updatedLines encryptedCount w =
     (Inr (updatedLines, encryptedCount), w)"
| "encryptLoop P secretKeyVariable ((key, value) # entries) updatedLines encryptedCount w =
     (if value \<noteq> [] then
        (case encryptValueIfPlaintext P (trim value) secretKeyVariable w of
           (Inl e, w') \<Rightarrow> (Inl e, w')
         | (Inr encryptedValue, w') \<Rightarrow>
             (if \<not> truthy (to_js_value encryptedValue) \<or> strictly_equals encryptedValue value
              then encryptLoop P secretKeyVariable entries updatedLines encryptedCount w'
              else encryptLoop P secretKeyVariable entries
                     (updateEnvironmentFileLines updatedLines key
                        (JSON_stringify P (to_js_value encryptedValue)))
                     (encryptedCount + 1) w'))
      else encryptLoop P secretKeyVariable entries updatedLines encryptedCount w)"

definition encryptVariableValuesInFileLines ::
  "platform \<Rightarrow> string list \<Rightarrow> js_record \<Rightarrow> string \<Rightarrow> world
     \<Rightarrow> (error + string list \<times> nat) \<times> world" where
  "encryptVariableValuesInFileLines P envFileLines variablesToEncrypt secretKeyVariable w =
     encryptLoop P secretKeyVariable variablesToEncrypt envFileLines 0 w"



subsection \<open>Vocabulary of the specification\<close>





subsection \<open>Library contracts\<close>

text \<open>What the theorems below assume of the platform, each where it is needed.
  \<^item> Base64: decoding the text of a buffer gives the buffer back, and only the empty buffer
    has the empty text.
  \<^item> AES-GCM: a ciphertext produced under a key and an IV is not empty (it carries the
    authentication tag) and decrypts, under the same key and IV, to the plaintext.
  \<^item> JSON: for an envelope whose three fields are base64 text, \<^verbatim>\<open>JSON.stringify\<close> gives one
    line that starts with \<^verbatim>\<open>{\<close> and ends with \<^verbatim>\<open>}\<close>, and \<^verbatim>\<open>JSON.parse\<close> gives the envelope
    back from it.\<close>

definition base64_contract :: "platform \<Rightarrow> bool" where
  "base64_contract P \<longleftrightarrow>
     (\<forall>bs. base64_decode P (base64_encode P bs) = bs)
     \<and> (\<forall>bs. base64_encode P bs = [] \<longrightarrow> bs = [])"

definition aead_contract :: "platform \<Rightarrow> bool" where
  "aead_contract P \<longleftrightarrow>
     (\<forall>key ivBuffer plain cipher.
        subtle_encrypt P key ivBuffer plain = Inr cipher
        \<longrightarrow> cipher \<noteq> [] \<and> subtle_decrypt P key ivBuffer cipher = Inr plain)"

definition json_envelope_contract :: "platform \<Rightarrow> bool" where
  "json_envelope_contract P \<longleftrightarrow>
     (\<forall>a b c.
        let envelope = JObj [(''salt'', JStr (base64_encode P a)),
                             (''iv'', JStr (base64_encode P b)),
                             (''cipherText'', JStr (base64_encode P c))];
            text = JSON_stringify P envelope
        in JSON_parse P text = Some envelope
           \<and> startsWith text ''{'' \<and> endsWith text ''}'' \<and> CHR 0x0A \<notin> set text)"

subsection \<open>Observing a run\<close>












subsection \<open>A reference platform\<close>

text \<open>One concrete platform, on which the model can be run: base64 as in RFC 4648, a
  serialiser and a parser for flat JSON objects of strings, one byte per character for text,
  and stand-ins for Argon2 and AES-GCM that have the shape of the real functions (a key of
  the requested length; a ciphertext that is the masked plaintext followed by a 16-byte tag
  which decryption checks). It shows that the library contracts assumed below can be met
  together, and it fixes the inputs of the closed examples.\<close>

definition ref_alphabet :: string where
  "ref_alphabet = ''ABCDEFGHIJKLMNOPQRSTUVWXYZabcdefghijklmnopqrstuvwxyz0123456789+/''"

definition ref_digit :: "nat \<Rightarrow> char" where
  "ref_digit i = ref_alphabet ! i"

definition ref_index :: "char \<Rightarrow> nat" where
  "ref_index c = length (takeWhile (\<lambda>x. x \<noteq> c) ref_alphabet)"

fun ref_base64_encode :: "byte list \<Rightarrow> string" where
  "ref_base64_encode (a # b # c # rest) =
     [ref_digit (unat a div 4),
      ref_digit (unat a mod 4 * 16 + unat b div 16),
      ref_digit (unat b mod 16 * 4 + unat c div 64),
      ref_digit (unat c mod 64)] @ ref_base64_encode rest"
| "ref_base64_encode [a, b] =
     [ref_digit (unat a div 4),
      ref_digit (unat a mod 4 * 16 + unat b div 16),
      ref_digit (unat b mod 16 * 4),
      CHR ''='']"
| "ref_base64_encode [a] =
     [ref_digit (unat a div 4), ref_digit (unat a mod 4 * 16), CHR ''='', CHR ''='']"
| "ref_base64_encode [] = []"

fun ref_base64_decode :: "string \<Rightarrow> byte list" where
  "ref_base64_decode (p # q # r # s # rest) =
     (let i = ref_index p; j = ref_index q; k = ref_index r; l = ref_index s
      in if r = CHR ''='' then [of_nat (i * 4 + j div 16)]
         else if s = CHR ''='' then [of_nat (i * 4 + j div 16), of_nat (j mod 16 * 16 + k div 4)]
         else of_nat (i * 4 + j div 16) # of_nat (j mod 16 * 16 + k div 4)
                # of_nat (k mod 4 * 64 + l) # ref_base64_decode rest)"
| "ref_base64_decode s = []"

definition ref_quote :: "string \<Rightarrow> string" where
  "ref_quote s = CHR 0x22 # s @ [CHR 0x22]"

fun ref_member :: "string \<times> js_value \<Rightarrow> string" where
  "ref_member (name, JStr s) = ref_quote name @ '':'' @ ref_quote s"
| "ref_member (name, v) = ref_quote name @ '':null''"

fun ref_stringify :: "js_value \<Rightarrow> string" where
  "ref_stringify (JStr s) = ref_quote s"
| "ref_stringify (JObj fs) = ''{'' @ join_with CHR '','' (map ref_member fs) @ ''}''"
| "ref_stringify v = ''null''"

fun ref_members :: "string list \<Rightarrow> (string \<times> js_value) list option" where
  "ref_members (name # colon # text # sep # rest) =
     (if colon \<noteq> '':'' then None
      else if sep = ''}'' \<and> rest = [] then Some [(name, JStr text)]
      else if sep = '','' then map_option (Cons (name, JStr text)) (ref_members rest)
      else None)"
| "ref_members segments = None"

definition ref_parse :: "string \<Rightarrow> js_value option" where
  "ref_parse s =
     (if s = ''{}'' then Some (JObj [])
      else (case split_on CHR 0x22 s of
              [] \<Rightarrow> None
            | brace # rest \<Rightarrow> if brace = ''{'' then map_option JObj (ref_members rest) else None))"

definition ref_text_encode :: "string \<Rightarrow> byte list" where
  "ref_text_encode s = map (\<lambda>c. of_nat (of_char c)) s"

definition ref_text_decode :: "byte list \<Rightarrow> string" where
  "ref_text_decode bs = map (\<lambda>b. char_of (unat b)) bs"

definition ref_argon2 :: "string \<Rightarrow> argon2_options \<Rightarrow> error + byte list" where
  "ref_argon2 password options =
     (if length (opt_salt options) < 8 then Inl (Error ''salt too short'')
      else Inr (map (\<lambda>i. of_nat (i + length password) + of_nat (length (opt_salt options)))
                  [0 ..< nat (opt_hashLength options)]))"

definition ref_importKey :: "byte list \<Rightarrow> error + byte list" where
  "ref_importKey keyBuffer =
     (if length keyBuffer \<in> {16, 24, 32} then Inr keyBuffer else Inl OperationError)"

definition ref_tag :: "byte list \<Rightarrow> byte list \<Rightarrow> byte list" where
  "ref_tag key ivBuffer = take 16 (ivBuffer @ key @ replicate 16 0)"

definition ref_mask :: "byte list \<Rightarrow> byte" where
  "ref_mask key = (case key of [] \<Rightarrow> 1 | k # _ \<Rightarrow> k)"

definition ref_encrypt :: "byte list \<Rightarrow> byte list \<Rightarrow> byte list \<Rightarrow> error + byte list" where
  "ref_encrypt key ivBuffer plain =
     (if ivBuffer = [] then Inl OperationError
      else Inr (map (\<lambda>b. b + ref_mask key) plain @ ref_tag key ivBuffer))"

definition ref_decrypt :: "byte list \<Rightarrow> byte list \<Rightarrow> byte list \<Rightarrow> error + byte list" where
  "ref_decrypt key ivBuffer cipher =
     (if length cipher < 16 \<or> drop (length cipher - 16) cipher \<noteq> ref_tag key ivBuffer
      then Inl OperationError
      else Inr (map (\<lambda>b. b - ref_mask key) (take (length cipher - 16) cipher)))"

definition ref_dirname :: "string \<Rightarrow> string" where
  "ref_dirname p = rev (tl (dropWhile (\<lambda>c. c \<noteq> CHR ''/'') (rev p)))"

definition ref_platform :: platform where
  "ref_platform =
     \<lparr>entropy = (\<lambda>i. of_nat (7 * i + 3)),
      window_crypto = False,
      base64_encode = ref_base64_encode,
      base64_decode = ref_base64_decode,
      buffer_from_value = (\<lambda>v. Inl TypeError),
      text_encode = ref_text_encode,
      text_decode = ref_text_decode,
      argon2_hash = ref_argon2,
      subtle_importKey = ref_importKey,
      subtle_encrypt = ref_encrypt,
      subtle_decrypt = ref_decrypt,
      JSON_parse = ref_parse,
      JSON_stringify = ref_stringify,
      process_cwd = ''/work'',
      path_normalize = (\<lambda>p. p),
      path_resolve = (\<lambda>p. if startsWith p ''/'' then p else ''/work/'' @ p),
      path_resolve2 = (\<lambda>d p. if startsWith p ''/'' then p else d @ ''/'' @ p),
      path_isAbsolute = (\<lambda>p. startsWith p ''/''),
      path_join = (\<lambda>d p. d @ ''/'' @ p),
      path_dirname = ref_dirname,
      fs_mkdir_error = (\<lambda>p. None),
      fs_read_error = (\<lambda>p. None),
      fs_write_error = (\<lambda>p. None)\<rparr>"

definition ref_world :: "string \<Rightarrow> world" where
  "ref_world content = \<lparr>files = [''/work/envs/.env.uat'' \<mapsto> content], fs_trace = [], rng_pos = 0\<rparr>"

section \<open>Properties\<close>

subsection \<open>The reference platform meets the library contracts\<close>

lemma index_nth_distinct:
  "distinct xs \<Longrightarrow> i < length xs \<Longrightarrow> length (takeWhile (\<lambda>x. x \<noteq> xs ! i) xs) = i"
proof (induction xs arbitrary: i)
  case Nil
  then show ?case by simp
next
  case (Cons a xs)
  show ?case
  proof (cases i)
    case 0
    then show ?thesis by simp
  next
    case (Suc n)
    with Cons.prems have "a \<noteq> xs ! n" by auto
    with Cons Suc show ?thesis by simp
  qed
qed

lemma ref_alphabet_distinct: "distinct ref_alphabet"
  by (simp add: ref_alphabet_def)

lemma ref_alphabet_length: "length ref_alphabet = 64"
  by (simp add: ref_alphabet_def)

lemma ref_index_digit: "i < 64 \<Longrightarrow> ref_index (ref_digit i) = i"
  unfolding ref_index_def ref_digit_def
  by (rule index_nth_distinct) (simp_all add: ref_alphabet_distinct ref_alphabet_length)

lemma ref_digit_in: "i < 64 \<Longrightarrow> ref_digit i \<in> set ref_alphabet"
  by (simp add: ref_digit_def ref_alphabet_length)

lemma ref_pad_notin: "CHR ''='' \<notin> set ref_alphabet"
  by (simp add: ref_alphabet_def)

lemma ref_digit_not_pad: "i < 64 \<Longrightarrow> ref_digit i \<noteq> CHR ''=''"
  using ref_digit_in ref_pad_notin by metis

lemma unat_byte_less: "unat (a :: byte) < 256"
  using unsigned_less [of a, where 'a = nat] by simp

lemma ref_byte1:
  "(of_nat (unat a div 4 * 4 + (unat a mod 4 * 16 + unat (b :: byte) div 16) div 16) :: byte) = a"
proof -
  have "unat b < 256" by (rule unat_byte_less)
  then have "unat a div 4 * 4 + (unat a mod 4 * 16 + unat b div 16) div 16 = unat a" by simp
  then show ?thesis by simp
qed

lemma ref_byte2:
  "(of_nat ((unat (a :: byte) mod 4 * 16 + unat b div 16) mod 16 * 16
            + (unat b mod 16 * 4 + unat (c :: byte) div 64) div 4) :: byte) = b"
proof -
  have "unat b < 256" "unat c < 256" by (rule unat_byte_less)+
  then have "(unat a mod 4 * 16 + unat b div 16) mod 16 * 16
              + (unat b mod 16 * 4 + unat c div 64) div 4 = unat b" by simp
  then show ?thesis by simp
qed

lemma ref_byte3:
  "(of_nat ((unat (b :: byte) mod 16 * 4 + unat c div 64) mod 4 * 64 + unat c mod 64) :: byte) = c"
proof -
  have "unat c < 256" by (rule unat_byte_less)
  then have "(unat b mod 16 * 4 + unat c div 64) mod 4 * 64 + unat c mod 64 = unat c" by simp
  then show ?thesis by simp
qed

lemma ref_sextets:
  "unat (a :: byte) div 4 < 64"
  "unat (a :: byte) mod 4 * 16 + unat (b :: byte) div 16 < 64"
  "unat (b :: byte) mod 16 * 4 + unat (c :: byte) div 64 < 64"
  "unat (c :: byte) mod 64 < 64"
  using unat_byte_less [of a] unat_byte_less [of b] unat_byte_less [of c] by simp_all

lemma ref_decode_quad:
  "ref_base64_decode
     (ref_digit (unat a div 4) # ref_digit (unat a mod 4 * 16 + unat b div 16)
        # ref_digit (unat b mod 16 * 4 + unat c div 64) # ref_digit (unat c mod 64) # rest)
   = a # b # c # ref_base64_decode rest"
  by (simp only: ref_base64_decode.simps Let_def ref_index_digit ref_sextets
        ref_digit_not_pad if_False ref_byte1 ref_byte2 ref_byte3)

lemma ref_decode_pair:
  "ref_base64_decode
     [ref_digit (unat a div 4), ref_digit (unat a mod 4 * 16 + unat b div 16),
      ref_digit (unat b mod 16 * 4), CHR ''=''] = [a, b]"
  using ref_sextets(3) [of b 0] ref_byte2 [of a b 0]
  by (simp only: ref_base64_decode.simps Let_def ref_index_digit ref_sextets
        ref_digit_not_pad if_False if_True simp_thms ref_byte1 unat_0 div_0 add_0_right)

lemma ref_decode_single:
  "ref_base64_decode [ref_digit (unat a div 4), ref_digit (unat a mod 4 * 16), CHR ''='', CHR ''='']
     = [a]"
  using ref_sextets(2) [of a 0] ref_byte1 [of a 0]
  by (simp only: ref_base64_decode.simps Let_def ref_index_digit ref_sextets
        if_True simp_thms unat_0 div_0 add_0_right)

lemma ref_base64_roundtrip: "ref_base64_decode (ref_base64_encode bs) = bs"
proof (induction bs rule: ref_base64_encode.induct)
  case (1 a b c rest)
  then show ?case
    by (simp only: ref_base64_encode.simps append_Cons append_Nil ref_decode_quad)
next
  case (2 a b)
  show ?case by (simp only: ref_base64_encode.simps ref_decode_pair)
next
  case (3 a)
  show ?case by (simp only: ref_base64_encode.simps ref_decode_single)
next
  case 4
  show ?case by simp
qed

lemma ref_base64_length: "length (ref_base64_encode bs) = 4 * ((length bs + 2) div 3)"
  by (induction bs rule: ref_base64_encode.induct) (simp_all, presburger)

lemma ref_base64_chars: "set (ref_base64_encode bs) \<subseteq> insert CHR ''='' (set ref_alphabet)"
  by (induction bs rule: ref_base64_encode.induct) (simp_all add: ref_digit_in ref_sextets)

lemma ref_base64_nonempty: "ref_base64_encode bs = [] \<longleftrightarrow> bs = []"
  by (cases bs rule: ref_base64_encode.cases) simp_all

lemma ref_platform_simps:
  "entropy ref_platform = (\<lambda>i. of_nat (7 * i + 3))"
  "window_crypto ref_platform = False"
  "base64_encode ref_platform = ref_base64_encode"
  "base64_decode ref_platform = ref_base64_decode"
  "buffer_from_value ref_platform = (\<lambda>v. Inl TypeError)"
  "text_encode ref_platform = ref_text_encode"
  "text_decode ref_platform = ref_text_decode"
  "argon2_hash ref_platform = ref_argon2"
  "subtle_importKey ref_platform = ref_importKey"
  "subtle_encrypt ref_platform = ref_encrypt"
  "subtle_decrypt ref_platform = ref_decrypt"
  "JSON_parse ref_platform = ref_parse"
  "JSON_stringify ref_platform = ref_stringify"
  "process_cwd ref_platform = ''/work''"
  "path_normalize ref_platform = (\<lambda>p. p)"
  "path_resolve ref_platform = (\<lambda>p. if startsWith p ''/'' then p else ''/work/'' @ p)"
  "path_resolve2 ref_platform = (\<lambda>d p. if startsWith p ''/'' then p else d @ ''/'' @ p)"
  "path_isAbsolute ref_platform = (\<lambda>p. startsWith p ''/'')"
  "path_join ref_platform = (\<lambda>d p. d @ ''/'' @ p)"
  "path_dirname ref_platform = ref_dirname"
  "fs_mkdir_error ref_platform = (\<lambda>p. None)"
  "fs_read_error ref_platform = (\<lambda>p. None)"
  "fs_write_error ref_platform = (\<lambda>p. None)"
  by (simp_all add: ref_platform_def)

lemma ref_encrypt_succeeds:
  "\<exists>e w'. encrypt ref_platform value secretKey w = (Inr e, w')"
  by (simp add: encrypt_def generateBase64Salt_def generateWebCryptoIV_def
        generateSecureUint8Array_def isWebCryptoAvailable_def randomBytes_def validateLength_def
        default_arg_def SALT_LENGTH_def WEB_CRYPTO_IV_LENGTH_def CRYPTO_CONFIG_def
        deriveKeyWithArgon2_def Buffer_from_base64_def argon2Hashing_def
        importKeyForCrypto_def encryptBuffer_def Let_def ref_platform_simps
        ref_base64_roundtrip ref_argon2_def ref_importKey_def ref_encrypt_def)


lemma split_on_append: "c \<notin> set a \<Longrightarrow> split_on c (a @ c # rest) = a # split_on c rest"
  by (induction a) auto

lemma endsWith_append: "endsWith (xs @ p) p"
  by (simp add: endsWith_def)

lemma ref_base64_no_quote: "CHR 0x22 \<notin> set (ref_base64_encode bs)"
  using ref_base64_chars [of bs] by (auto simp: ref_alphabet_def)

lemma ref_base64_no_newline: "CHR 0x0A \<notin> set (ref_base64_encode bs)"
  using ref_base64_chars [of bs] by (auto simp: ref_alphabet_def)

lemma ref_json_roundtrip:
  assumes "CHR 0x22 \<notin> set s1" "CHR 0x22 \<notin> set s2" "CHR 0x22 \<notin> set s3"
  shows "ref_parse (ref_stringify (JObj [(''salt'', JStr s1), (''iv'', JStr s2), (''cipherText'', JStr s3)]))
         = Some (JObj [(''salt'', JStr s1), (''iv'', JStr s2), (''cipherText'', JStr s3)])"
  using assms by (simp add: ref_parse_def ref_quote_def split_on_append)

lemma ref_base64_contract: "base64_contract ref_platform"
  by (simp add: base64_contract_def ref_platform_simps ref_base64_roundtrip ref_base64_nonempty)

lemma ref_tag_length: "length (ref_tag key ivBuffer) = 16"
  by (simp add: ref_tag_def)

lemma ref_decrypt_encrypt:
  "ref_encrypt key ivBuffer plain = Inr cipher
     \<Longrightarrow> cipher \<noteq> [] \<and> ref_decrypt key ivBuffer cipher = Inr plain"
  using ref_tag_length [of key ivBuffer]
  by (auto simp: ref_encrypt_def ref_decrypt_def comp_def split: if_splits)

lemma ref_aead_contract: "aead_contract ref_platform"
  unfolding aead_contract_def ref_platform_simps using ref_decrypt_encrypt by blast

lemma endsWith_Cons: "endsWith xs p \<Longrightarrow> endsWith (a # xs) p"
  by (auto simp: endsWith_def Suc_diff_le)

lemma ref_stringify_object_shape:
  "startsWith (ref_stringify (JObj fs)) ''{'' \<and> endsWith (ref_stringify (JObj fs)) ''}''"
  by (simp add: startsWith_def endsWith_Cons endsWith_append)

lemma ref_stringify_envelope_one_line:
  "CHR 0x0A \<notin> set (ref_stringify (JObj [(''salt'', JStr (ref_base64_encode a)),
      (''iv'', JStr (ref_base64_encode b)), (''cipherText'', JStr (ref_base64_encode c))]))"
  by (simp add: ref_quote_def ref_base64_no_newline)

lemma ref_json_envelope_contract: "json_envelope_contract ref_platform"
  unfolding json_envelope_contract_def Let_def ref_platform_simps
  using ref_json_roundtrip [OF ref_base64_no_quote ref_base64_no_quote ref_base64_no_quote]
    ref_stringify_object_shape ref_stringify_envelope_one_line
  by blast

lemma ref_text_roundtrip: "ref_text_decode (ref_text_encode s) = s"
  by (simp add: ref_text_decode_def ref_text_encode_def unat_of_nat map_idI)

subsection \<open>Strings, lines and the line parser\<close>

lemma trim_Nil [simp]: "trim [] = []"
  by (simp add: trim_def)

lemma trim_eq_self:
  assumes "s \<noteq> []" "\<not> is_space (hd s)" "\<not> is_space (last s)"
  shows "trim s = s"
proof -
  from assms have "dropWhile is_space s = s" by (cases s) auto
  moreover from assms have "dropWhile is_space (rev s) = rev s"
    by (cases "rev s") (auto simp: last_rev [symmetric] hd_rev)
  ultimately show ?thesis by (simp add: trim_def)
qed

lemma trim_ends:
  assumes "trim s \<noteq> []"
  shows "\<not> is_space (hd (trim s))" and "\<not> is_space (last (trim s))"
proof -
  let ?d = "dropWhile is_space s"
  let ?r = "dropWhile is_space (rev ?d)"
  from assms have r: "?r \<noteq> []" by (simp add: trim_def)
  have d: "?d \<noteq> []"
  proof
    assume "?d = []"
    with r show False by simp
  qed
  from r have "\<not> is_space (hd ?r)" by (rule hd_dropWhile)
  then show "\<not> is_space (last (trim s))" using r by (simp add: trim_def last_rev)
  from d have hd: "\<not> is_space (hd ?d)" by (rule hd_dropWhile)
  obtain n where n: "?r = drop n (rev ?d)"
    using dropWhile_eq_drop by blast
  with r have "n < length ?d" by auto
  have "rev ?r = take (length ?d - n) ?d"
    by (simp add: n rev_drop)
  moreover from \<open>n < length ?d\<close> have "0 < length ?d - n" by simp
  ultimately have "hd (rev ?r) = hd ?d"
    by (simp add: hd_take)
  with hd show "\<not> is_space (hd (trim s))" by (simp add: trim_def)
qed

lemma trim_idem: "trim (trim s) = trim s"
proof (cases "trim s = []")
  case True
  then show ?thesis by simp
next
  case False
  then show ?thesis using trim_ends [OF False] by (intro trim_eq_self)
qed

lemma trim_keeps_head:
  assumes "s \<noteq> []" "\<not> is_space (hd s)"
  shows "\<exists>t. trim s = hd s # t"
proof -
  from assms have d: "dropWhile is_space s = s" by (cases s) auto
  from assms have "rev s \<noteq> []" by simp
  have "\<exists>x \<in> set (rev s). \<not> is_space x"
    using assms by (cases s) auto
  then have r: "dropWhile is_space (rev s) \<noteq> []"
    by (simp add: dropWhile_eq_Nil_conv)
  obtain n where n: "dropWhile is_space (rev s) = drop n (rev s)"
    using dropWhile_eq_drop by blast
  with r have "n < length s" by auto
  have "trim s = take (length s - n) s"
    by (simp add: trim_def d n rev_drop)
  moreover from \<open>n < length s\<close> have "0 < length s - n" by simp
  ultimately have "trim s \<noteq> [] \<and> hd (trim s) = hd s"
    using assms by (auto simp: hd_take)
  then show ?thesis by (cases "trim s") auto
qed

lemma split_on_not_Nil [simp]: "split_on c s \<noteq> []"
  by (induction s) (auto split: list.splits)

lemma join_split: "join_with c (split_on c s) = s"
proof (induction s)
  case Nil
  show ?case by simp
next
  case (Cons x xs)
  show ?case
  proof (cases "x = c")
    case True
    with Cons show ?thesis by (cases "split_on c xs") auto
  next
    case False
    obtain part parts where sp: "split_on c xs = part # parts"
      by (cases "split_on c xs") auto
    with Cons False show ?thesis by (cases parts) auto
  qed
qed

lemma split_on_head:
  "split_on c s = key # parts
     \<Longrightarrow> c \<notin> set key \<and> (if parts = [] then s = key else s = key @ c # join_with c parts)"
proof (induction s arbitrary: key parts)
  case Nil
  then show ?case by simp
next
  case (Cons x xs)
  show ?case
  proof (cases "x = c")
    case True
    with Cons.prems have "key = []" "parts = split_on c xs" by auto
    then show ?thesis using True join_split [of c xs] by simp
  next
    case False
    obtain part ps where sp: "split_on c xs = part # ps"
      by (cases "split_on c xs") auto
    with Cons.prems False have k: "key = x # part" "parts = ps" by auto
    from Cons.IH [OF sp] show ?thesis using k False by auto
  qed
qed

lemma split_on_prefix:
  "c \<notin> set key \<Longrightarrow> split_on c (key @ c # rest) = key # split_on c rest"
  by (induction key) auto

lemma parse_Some_iff:
  "parseEnvironmentLine line = Some (k, v) \<longleftrightarrow>
     (\<exists>key value. trim line = key @ CHR ''='' # value \<and> CHR ''='' \<notin> set key
        \<and> key \<noteq> [] \<and> value \<noteq> [] \<and> k = trim key \<and> v = trim value)"
proof
  assume p: "parseEnvironmentLine line = Some (k, v)"
  then have ne: "trim line \<noteq> []" and eq: "CHR ''='' \<in> set (trim line)"
    by (auto simp: parseEnvironmentLine_def Let_def split: if_splits)
  obtain key parts where sp: "split_on CHR ''='' (trim line) = key # parts"
    by (cases "split_on CHR ''='' (trim line)") auto
  from split_on_head [OF sp] eq have nk: "CHR ''='' \<notin> set key"
    and parts: "parts \<noteq> []" and tl: "trim line = key @ CHR ''='' # join_with CHR ''='' parts"
    by (auto split: if_splits)
  from p sp ne eq have "key \<noteq> []" "join_with CHR ''='' parts \<noteq> []"
    "k = trim key" "v = trim (join_with CHR ''='' parts)"
    by (auto simp: parseEnvironmentLine_def Let_def split: if_splits)
  with nk tl show "\<exists>key value. trim line = key @ CHR ''='' # value \<and> CHR ''='' \<notin> set key
        \<and> key \<noteq> [] \<and> value \<noteq> [] \<and> k = trim key \<and> v = trim value"
    by blast
next
  assume "\<exists>key value. trim line = key @ CHR ''='' # value \<and> CHR ''='' \<notin> set key
        \<and> key \<noteq> [] \<and> value \<noteq> [] \<and> k = trim key \<and> v = trim value"
  then obtain key "value" where tl: "trim line = key @ CHR ''='' # value"
    and nk: "CHR ''='' \<notin> set key" and ne: "key \<noteq> []" "value \<noteq> []"
    and kv: "k = trim key" "v = trim value"
    by blast
  have sp: "split_on CHR ''='' (trim line) = key # split_on CHR ''='' value"
    by (simp add: tl split_on_prefix [OF nk])
  show "parseEnvironmentLine line = Some (k, v)"
    using ne kv by (simp add: parseEnvironmentLine_def Let_def sp join_split) (simp add: tl)
qed

lemma trim_Nil_iff: "trim s = [] \<longleftrightarrow> (\<forall>x \<in> set s. is_space x)"
proof
  assume t: "trim s = []"
  show "\<forall>x \<in> set s. is_space x"
  proof (rule ccontr)
    assume "\<not> (\<forall>x \<in> set s. is_space x)"
    then have d: "dropWhile is_space s \<noteq> []" by (simp add: dropWhile_eq_Nil_conv)
    then have "\<not> is_space (hd (dropWhile is_space s))" by (rule hd_dropWhile)
    with d have "\<exists>x \<in> set (rev (dropWhile is_space s)). \<not> is_space x"
      by (cases "dropWhile is_space s") auto
    then have "dropWhile is_space (rev (dropWhile is_space s)) \<noteq> []"
      by (simp add: dropWhile_eq_Nil_conv)
    with t show False by (simp add: trim_def)
  qed
next
  assume "\<forall>x \<in> set s. is_space x"
  then have d: "dropWhile is_space s = []" by (simp add: dropWhile_eq_Nil_conv)
  show "trim s = []" unfolding trim_def d by simp
qed

lemma set_trim: "set (trim s) \<subseteq> set s"
proof -
  have "set (trim s) \<subseteq> set (dropWhile is_space s)"
    unfolding trim_def set_rev using set_dropWhileD by fastforce
  also have "\<dots> \<subseteq> set s" using set_dropWhileD by fastforce
  finally show ?thesis .
qed


text \<open>Every parsed key and value is non-empty and trimmed, and a key has no \<^verbatim>\<open>=\<close>.\<close>

lemma parse_shape:
  assumes "parseEnvironmentLine line = Some (k, v)"
  shows "k \<noteq> []" "\<not> is_space (hd k)" "\<not> is_space (last k)" "CHR ''='' \<notin> set k" "trim k = k"
    "v \<noteq> []" "\<not> is_space (hd v)" "\<not> is_space (last v)" "trim v = v"
proof -
  from assms obtain key val where tl: "trim line = key @ CHR ''='' # val"
    and nk: "CHR ''='' \<notin> set key" and ne: "key \<noteq> []" "val \<noteq> []"
    and kv: "k = trim key" "v = trim val"
    unfolding parse_Some_iff by blast
  from tl have tne: "trim line \<noteq> []" by simp
  from trim_ends [OF tne] tl ne have "\<not> is_space (hd key)" "\<not> is_space (last val)"
    by (simp_all add: hd_append)
  with ne have "trim key \<noteq> []" "trim val \<noteq> []"
    by (auto simp: trim_Nil_iff intro: hd_in_set last_in_set)
  then show "k \<noteq> []" "v \<noteq> []" by (simp_all add: kv)
  from trim_ends [OF \<open>trim key \<noteq> []\<close>] show "\<not> is_space (hd k)" "\<not> is_space (last k)"
    by (simp_all add: kv)
  from trim_ends [OF \<open>trim val \<noteq> []\<close>] show "\<not> is_space (hd v)" "\<not> is_space (last v)"
    by (simp_all add: kv)
  from nk set_trim [of key] show "CHR ''='' \<notin> set k" by (auto simp: kv)
  show "trim k = k" "trim v = v" by (simp_all add: kv trim_idem)
qed

lemma update_length:
  "length (updateEnvironmentFileLines lines k v) \<ge> length lines"
  by (simp add: updateEnvironmentFileLines_def Let_def)




subsection \<open>SecureKeyGenerator: length validation\<close>

lemma length_randomBytes: "length (fst (randomBytes P n w)) = nat n"
  by (simp add: randomBytes_def)

lemma getRandomValues_eq: "getRandomValues P n w = randomBytes P n w"
  by (simp add: getRandomValues_def randomBytes_def)



subsection \<open>EncryptionService: parameters of an encryption, rejection of malformed input\<close>

text \<open>The shape of a successful encryption, shared by the properties below.\<close>

lemma encrypt_result:
  assumes "encrypt P value secretKey w = (Inr e, w')"
  shows "\<exists>saltBytes ivBytes keyBuffer key cipherBytes.
      saltBytes = map (entropy P) [rng_pos w ..< rng_pos w + 32] \<and> length saltBytes = 32
    \<and> ivBytes = map (entropy P) [rng_pos w + 32 ..< rng_pos w + 44] \<and> length ivBytes = 12
    \<and> w' = w\<lparr>rng_pos := rng_pos w + 44\<rparr>
    \<and> argon2_hash P secretKey
          \<lparr>opt_type = Argon2id, opt_hashLength = 32,
           opt_salt = base64_decode P (base64_encode P saltBytes),
           opt_memoryCost = 262144, opt_timeCost = 4, opt_parallelism = 3,
           opt_raw = True\<rparr> = Inr keyBuffer
    \<and> subtle_importKey P keyBuffer = Inr key
    \<and> subtle_encrypt P key ivBytes (text_encode P value) = Inr cipherBytes
    \<and> e = \<lparr>salt = base64_encode P saltBytes, iv = base64_encode P ivBytes,
            cipherText = base64_encode P cipherBytes\<rparr>"
  using assms
  by (auto simp: encrypt_def generateBase64Salt_def generateWebCryptoIV_def
        generateSecureUint8Array_def getRandomValues_eq randomBytes_def validateLength_def
        default_arg_def SALT_LENGTH_def WEB_CRYPTO_IV_LENGTH_def CRYPTO_CONFIG_def
        deriveKeyWithArgon2_def Buffer_from_base64_def argon2Hashing_def
        importKeyForCrypto_def encryptBuffer_def Let_def add.commute [of 44]
        split: sum.splits prod.splits if_splits)

text \<open>
  \<^bold>\<open>Claim C8.\<close> A call of \<^verbatim>\<open>encrypt\<close> that returns an envelope has drawn a 32-byte salt and then
  a 12-byte IV from the entropy source (44 fresh bytes; the Web Crypto IV length, not the
  general IV length 16), has derived the key with Argon2id, hash length 32, memory cost
  262144, time cost 4 and parallelism 3 on the salt, has encrypted the encoded plaintext
  under that key and IV, and returns salt, IV and ciphertext as base64 text.
\<close>

theorem encrypt_envelope_parameters:
  assumes "encrypt P value secretKey w = (Inr e, w')"
  shows "\<exists>saltBytes ivBytes keyBuffer key cipherBytes.
      saltBytes = map (entropy P) [rng_pos w ..< rng_pos w + 32] \<and> length saltBytes = 32
    \<and> ivBytes = map (entropy P) [rng_pos w + 32 ..< rng_pos w + 44] \<and> length ivBytes = 12
    \<and> w' = w\<lparr>rng_pos := rng_pos w + 44\<rparr>
    \<and> argon2_hash P secretKey
          \<lparr>opt_type = Argon2id, opt_hashLength = 32,
           opt_salt = base64_decode P (base64_encode P saltBytes),
           opt_memoryCost = 262144, opt_timeCost = 4, opt_parallelism = 3,
           opt_raw = True\<rparr> = Inr keyBuffer
    \<and> subtle_importKey P keyBuffer = Inr key
    \<and> subtle_encrypt P key ivBytes (text_encode P value) = Inr cipherBytes
    \<and> e = \<lparr>salt = base64_encode P saltBytes, iv = base64_encode P ivBytes,
            cipherText = base64_encode P cipherBytes\<rparr>"
  using assms by (rule encrypt_result)

text \<open>On the reference platform an encryption succeeds, consumes 44 bytes of entropy, and
  returns a 44-character salt and a 16-character IV.\<close>

theorem encrypt_envelope_parameters_witness:
  "\<exists>e w'. encrypt ref_platform ''secret'' ''KEY'' (ref_world []) = (Inr e, w')
     \<and> rng_pos w' = 44 \<and> length (salt e) = 44 \<and> length (iv e) = 16"
proof -
  obtain e w' where run: "encrypt ref_platform ''secret'' ''KEY'' (ref_world []) = (Inr e, w')"
    using ref_encrypt_succeeds by blast
  from encrypt_envelope_parameters [OF run]
  have "rng_pos w' = 44 \<and> length (salt e) = 44 \<and> length (iv e) = 16"
    by (auto simp: ref_world_def ref_platform_simps ref_base64_length)
  with run show ?thesis by blast
qed



text \<open>
  \<^bold>\<open>Claim C1.\<close> Decrypting the JSON text of the envelope that \<^verbatim>\<open>encrypt(p, k)\<close> returned, with
  the same passphrase, gives \<open>p\<close> back, for every passphrase and every plaintext that
  survives encoding to bytes and back (every well-formed string does), on a platform that
  meets the base64, AES-GCM and JSON contracts.
\<close>

theorem encrypt_decrypt_roundtrip:
  assumes b64: "base64_contract P" and aead: "aead_contract P"
    and json: "json_envelope_contract P"
    and utf8: "text_decode P (text_encode P p) = p"
    and run: "encrypt P p k w = (Inr e, w')"
  shows "decrypt P (JSON_stringify P (envelope_object e)) k = Inr p"
proof -
  from encrypt_result [OF run]
  obtain saltBytes ivBytes keyBuffer key cipherBytes where
    ls: "length saltBytes = 32" and li: "length ivBytes = 12"
    and kdf: "argon2_hash P k
          \<lparr>opt_type = Argon2id, opt_hashLength = 32,
           opt_salt = base64_decode P (base64_encode P saltBytes),
           opt_memoryCost = 262144, opt_timeCost = 4, opt_parallelism = 3,
           opt_raw = True\<rparr> = Inr keyBuffer"
    and imp: "subtle_importKey P keyBuffer = Inr key"
    and enc: "subtle_encrypt P key ivBytes (text_encode P p) = Inr cipherBytes"
    and e: "e = \<lparr>salt = base64_encode P saltBytes, iv = base64_encode P ivBytes,
            cipherText = base64_encode P cipherBytes\<rparr>"
    by blast
  from aead enc have ne: "cipherBytes \<noteq> []"
    and dec: "subtle_decrypt P key ivBytes cipherBytes = Inr (text_encode P p)"
    by (auto simp: aead_contract_def)
  from b64 have rt: "\<And>bs. base64_decode P (base64_encode P bs) = bs"
    and nonempty: "\<And>bs. base64_encode P bs = [] \<Longrightarrow> bs = []"
    by (auto simp: base64_contract_def)
  have t1: "base64_encode P saltBytes \<noteq> []" using nonempty [of saltBytes] ls by auto
  have t2: "base64_encode P ivBytes \<noteq> []" using nonempty [of ivBytes] li by auto
  have t3: "base64_encode P cipherBytes \<noteq> []" using nonempty [of cipherBytes] ne by auto
  from json [unfolded json_envelope_contract_def Let_def, rule_format, of saltBytes ivBytes cipherBytes]
  have parse: "JSON_parse P (JSON_stringify P (envelope_object e)) = Some (envelope_object e)"
    and start: "startsWith (JSON_stringify P (envelope_object e)) ''{''"
    by (simp_all add: e envelope_object_def)
  from start have nonnil: "JSON_stringify P (envelope_object e) \<noteq> []"
    by (auto simp: startsWith_def)
  show ?thesis
    using nonnil parse t1 t2 t3 kdf imp dec utf8
    by (simp add: decrypt_def parseEncryptedData_def validateParsedData_def e envelope_object_def
          deriveKeyWithArgon2_def Buffer_from_base64_def argon2Hashing_def importKeyForCrypto_def
          decryptBuffer_def CRYPTO_CONFIG_def rt)
qed

text \<open>On the reference platform: a plaintext is encrypted and recovered.\<close>

theorem encrypt_decrypt_roundtrip_witness:
  "\<exists>e w'. encrypt ref_platform ''s3cret=value'' ''KEY'' (ref_world []) = (Inr e, w')
     \<and> decrypt ref_platform (JSON_stringify ref_platform (envelope_object e)) ''KEY''
         = Inr ''s3cret=value''"
proof -
  obtain e w' where run: "encrypt ref_platform ''s3cret=value'' ''KEY'' (ref_world []) = (Inr e, w')"
    using ref_encrypt_succeeds by blast
  have utf8: "text_decode ref_platform (text_encode ref_platform ''s3cret=value'') = ''s3cret=value''"
    by (simp only: ref_platform_simps ref_text_roundtrip)
  from encrypt_decrypt_roundtrip
         [OF ref_base64_contract ref_aead_contract ref_json_envelope_contract utf8 run] run
  show ?thesis by blast
qed

subsection \<open>EnvironmentEncryptionManager: rewriting lines\<close>



text \<open>
  \<^bold>\<open>Claim C6\<close> says that the lines of targeted keys are replaced in place. The code does not
  do that for an assignment written with leading white space, which the parser accepts:
  with the file \<^verbatim>\<open>A=1\<close>, \<^verbatim>\<open>  B=2\<close>, \<^verbatim>\<open>C=3\<close> and the selector \<^verbatim>\<open>B\<close>, the line of \<^verbatim>\<open>B\<close> keeps
  its plaintext and the envelope is appended as a fourth line.
\<close>

lemma envelope_copy [simp]: "\<lparr>salt = salt e, iv = iv e, cipherText = cipherText e\<rparr> = e"
  by (cases e) simp

lemma truthy_envelope [simp]: "truthy (envelope_object e)"
  by (simp add: envelope_object_def)

lemma ref_not_encrypted_plain:
  "\<not> startsWith (trim v) ''{'' \<Longrightarrow> \<not> isAlreadyEncrypted P v"
  by (simp add: isAlreadyEncrypted_def Let_def)

theorem indented_target_line_is_not_replaced:
  "\<exists>e w'. encryptVariableValuesInFileLines ref_platform [''A=1'', ''  B=2'', ''C=3'']
             (fst (resolveVariablesToEncrypt
                     (extractEnvironmentVariables [''A=1'', ''  B=2'', ''C=3'']) (Some [''B''])))
             ''KEY'' (ref_world [])
     = (Inr ([''A=1'', ''  B=2'', ''C=3'',
              ''B='' @ JSON_stringify ref_platform (envelope_object e)], 1), w')"
proof -
  have targets: "fst (resolveVariablesToEncrypt
                     (extractEnvironmentVariables [''A=1'', ''  B=2'', ''C=3'']) (Some [''B'']))
       = [(''B'', ''2'')]"
    by (simp add: resolveVariablesToEncrypt_def extractEnvironmentVariables_def
        parseEnvironmentLine_def trim_def is_space_def findEnvironmentVariableByKey_def
        truthy_record_def Object_assign_def)
  have plain: "\<not> isAlreadyEncrypted ref_platform ''2''"
    by (rule ref_not_encrypted_plain) (simp add: trim_def is_space_def startsWith_def)
  obtain e w' where run: "encrypt ref_platform ''2'' ''KEY'' (ref_world []) = (Inr e, w')"
    using ref_encrypt_succeeds by blast
  have "encryptVariableValuesInFileLines ref_platform [''A=1'', ''  B=2'', ''C=3'']
          [(''B'', ''2'')] ''KEY'' (ref_world [])
     = (Inr ([''A=1'', ''  B=2'', ''C=3'',
              ''B='' @ JSON_stringify ref_platform (envelope_object e)], 1), w')"
    using plain run
    by (simp add: encryptVariableValuesInFileLines_def encryptValueIfPlaintext_def
          trim_def is_space_def updateEnvironmentFileLines_def startsWith_def)
  with targets show ?thesis by auto
qed

subsection \<open>EnvironmentEncryptionManager: resolving selectors\<close>

text \<open>The resolution step never logs a warning: the test \<^verbatim>\<open>if (!found)\<close> is applied to an
  object. A selector that is a key wins over values; otherwise the first entry of the record
  with that value is taken.\<close>

lemma findByValue_log: "Warn m \<notin> set (snd (findByValue entries s))"
  by (induction entries s rule: findByValue.induct) auto

lemma find_log: "Warn m \<notin> set (snd (findEnvironmentVariableByKey allEnvVariables s))"
  by (auto simp: findEnvironmentVariableByKey_def findByValue_log split: option.splits)

lemma resolveLoop_log:
  "Warn m \<notin> set logged \<Longrightarrow> Warn m \<notin> set (snd (resolveLoop allEnvVariables selectors (vars, logged)))"
proof (induction selectors arbitrary: vars logged)
  case Nil
  then show ?case by simp
next
  case (Cons s selectors)
  obtain found log1 where f: "findEnvironmentVariableByKey allEnvVariables s = (found, log1)"
    by (cases "findEnvironmentVariableByKey allEnvVariables s")
  with find_log [of m allEnvVariables s] have "Warn m \<notin> set log1" by simp
  with Cons.prems have "Warn m \<notin> set (logged @ log1 @ [])" by simp
  from Cons.IH [OF this] show ?case by (simp add: f truthy_record_def)
qed

lemma resolve_never_warns: "Warn m \<notin> set (snd (resolveVariablesToEncrypt allEnvVariables envVariables))"
  by (auto simp: resolveVariablesToEncrypt_def resolveLoop_log split: option.splits)


lemma findByValue_first:
  "fst (findByValue entries s)
     = (case List.find (\<lambda>(key, value). value = s) entries of None \<Rightarrow> [] | Some entry \<Rightarrow> [entry])"
  by (induction entries s rule: findByValue.induct) auto

lemma find_value_fallback:
  "map_of allEnvVariables s = None
     \<Longrightarrow> fst (findEnvironmentVariableByKey allEnvVariables s)
           = (case List.find (\<lambda>(key, value). value = s) allEnvVariables of
                None \<Rightarrow> [] | Some entry \<Rightarrow> [entry])"
  by (simp add: findEnvironmentVariableByKey_def findByValue_first)

text \<open>
  \<^bold>\<open>Claim C7\<close> says that a selector matching neither a key nor a value is logged and
  skipped. It is skipped, and nothing is logged: for the file \<^verbatim>\<open>A=1\<close> and the selector
  \<^verbatim>\<open>MISSING\<close> the target set and the log are both empty.
\<close>

theorem unresolved_selector_is_not_logged:
  "resolveVariablesToEncrypt (extractEnvironmentVariables [''A=1'']) (Some [''MISSING''])
     = ([], [])"
  by (simp add: resolveVariablesToEncrypt_def extractEnvironmentVariables_def
        parseEnvironmentLine_def trim_def is_space_def findEnvironmentVariableByKey_def
        truthy_record_def Object_assign_def)

subsection \<open>EnvironmentEncryptionManager: values that are already encrypted\<close>

lemma isAlreadyEncrypted_iff:
  assumes "trim v = v"
  shows "isAlreadyEncrypted P v \<longleftrightarrow>
     startsWith v ''{'' \<and> endsWith v ''}''
     \<and> (\<exists>fs. JSON_parse P v = Some (JObj fs)
           \<and> {''salt'', ''iv'', ''cipherText''} \<subseteq> fst ` set fs)"
proof (cases "JSON_parse P v")
  case None
  then show ?thesis by (simp add: isAlreadyEncrypted_def Let_def)
next
  case (Some parsed)
  have "v = [] \<Longrightarrow> \<not> startsWith v ''{''" by (simp add: startsWith_def)
  then show ?thesis
    using assms Some
    by (cases parsed) (auto simp: isAlreadyEncrypted_def Let_def)
qed

lemma encryptLoop_single:
  assumes "v \<noteq> []" "trim v = v"
  shows "encryptVariableValuesInFileLines P lines [(key, v)] secretKey w
     = (if isAlreadyEncrypted P v then (Inr (lines, 0), w)
        else (case encrypt P v secretKey w of
                (Inl e, w') \<Rightarrow> (Inl e, w')
              | (Inr envelope, w') \<Rightarrow>
                  (Inr (updateEnvironmentFileLines lines key
                          (JSON_stringify P (envelope_object envelope)), 1), w')))"
  using assms
  by (auto simp: encryptVariableValuesInFileLines_def encryptValueIfPlaintext_def
        split: prod.splits sum.splits)

text \<open>
  \<^bold>\<open>Claim C4.\<close> For the value of a parsed variable (it is non-empty and trimmed): the value is
  classified as already encrypted if and only if it starts with \<^verbatim>\<open>{\<close>, ends with \<^verbatim>\<open>}\<close> and
  parses as an object that has \<^verbatim>\<open>salt\<close>, \<^verbatim>\<open>iv\<close> and \<^verbatim>\<open>cipherText\<close>; a parse failure gives the
  answer no and no error; a value classified as encrypted is skipped (lines, count and world
  unchanged); any other value, an object without the three fields included, is passed to
  \<^verbatim>\<open>encrypt\<close> and its line rewritten.
\<close>

theorem already_encrypted_classification:
  assumes "parseEnvironmentLine line = Some (key, v)"
  shows "(isAlreadyEncrypted P (trim v) \<longleftrightarrow>
            startsWith (trim v) ''{'' \<and> endsWith (trim v) ''}''
            \<and> (\<exists>fs. JSON_parse P (trim v) = Some (JObj fs)
                  \<and> {''salt'', ''iv'', ''cipherText''} \<subseteq> fst ` set fs))
    \<and> (JSON_parse P (trim v) = None \<longrightarrow> \<not> isAlreadyEncrypted P (trim v))
    \<and> (isAlreadyEncrypted P (trim v) \<longrightarrow>
          encryptVariableValuesInFileLines P lines [(key, v)] secretKey w = (Inr (lines, 0), w))
    \<and> (\<not> isAlreadyEncrypted P (trim v) \<longrightarrow>
          encryptVariableValuesInFileLines P lines [(key, v)] secretKey w
            = (case encrypt P (trim v) secretKey w of
                 (Inl e, w') \<Rightarrow> (Inl e, w')
               | (Inr envelope, w') \<Rightarrow>
                   (Inr (updateEnvironmentFileLines lines key
                           (JSON_stringify P (envelope_object envelope)), 1), w')))"
proof -
  from parse_shape [OF assms] have v: "v \<noteq> []" "trim v = v" by simp_all
  show ?thesis
    using isAlreadyEncrypted_iff [of v P, OF v(2)] encryptLoop_single [OF v, of P lines key secretKey w]
    by (auto simp: v)
qed

text \<open>On the reference platform: an envelope text is recognised and skipped, the object
  \<^verbatim>\<open>{"a":"b"}\<close> is not and is encrypted.\<close>

theorem already_encrypted_classification_witness:
  \<open>isAlreadyEncrypted ref_platform ''{"salt":"a","iv":"b","cipherText":"c"}''
   \<and> encryptVariableValuesInFileLines ref_platform
         [''T={"salt":"a","iv":"b","cipherText":"c"}'']
         [(''T'', ''{"salt":"a","iv":"b","cipherText":"c"}'')] ''KEY'' (ref_world [])
       = (Inr ([''T={"salt":"a","iv":"b","cipherText":"c"}''], 0), ref_world [])
   \<and> \<not> isAlreadyEncrypted ref_platform ''{"a":"b"}''
   \<and> (\<exists>e w'. encryptVariableValuesInFileLines ref_platform [''T={"a":"b"}'']
                 [(''T'', ''{"a":"b"}'')] ''KEY'' (ref_world [])
               = (Inr ([''T='' @ JSON_stringify ref_platform (envelope_object e)], 1), w'))\<close>
proof -
  let ?enc = \<open>''{"salt":"a","iv":"b","cipherText":"c"}''\<close>
  let ?obj = \<open>''{"a":"b"}''\<close>
  have p1: "parseEnvironmentLine (''T='' @ ?enc) = Some (''T'', ?enc)"
    by (simp add: parseEnvironmentLine_def trim_def is_space_def)
  have p2: "parseEnvironmentLine (''T='' @ ?obj) = Some (''T'', ?obj)"
    by (simp add: parseEnvironmentLine_def trim_def is_space_def)
  have t1: "trim ?enc = ?enc" and t2: "trim ?obj = ?obj"
    by (simp_all add: trim_def is_space_def)
  have shape1: "startsWith ?enc ''{'' \<and> endsWith ?enc ''}''
      \<and> (\<exists>fs. JSON_parse ref_platform ?enc = Some (JObj fs)
            \<and> {''salt'', ''iv'', ''cipherText''} \<subseteq> fst ` set fs)"
    by (simp add: startsWith_def endsWith_def ref_platform_simps ref_parse_def)
  have shape2: "\<not> (\<exists>fs. JSON_parse ref_platform ?obj = Some (JObj fs)
            \<and> {''salt'', ''iv'', ''cipherText''} \<subseteq> fst ` set fs)"
    by (simp add: ref_platform_simps ref_parse_def)
  note c1 = already_encrypted_classification
    [OF p1, of ref_platform "[''T='' @ ?enc]" "''KEY''" "ref_world []", unfolded t1]
  note c2 = already_encrypted_classification
    [OF p2, of ref_platform "[''T='' @ ?obj]" "''KEY''" "ref_world []", unfolded t2]
  from c1 shape1 have enc: "isAlreadyEncrypted ref_platform ?enc" by blast
  with c1 have skip: "encryptVariableValuesInFileLines ref_platform [''T='' @ ?enc]
      [(''T'', ?enc)] ''KEY'' (ref_world []) = (Inr ([''T='' @ ?enc], 0), ref_world [])"
    by blast
  from c2 shape2 have plain: "\<not> isAlreadyEncrypted ref_platform ?obj" by blast
  obtain e w' where run: "encrypt ref_platform ?obj ''KEY'' (ref_world []) = (Inr e, w')"
    using ref_encrypt_succeeds by blast
  from c2 plain run have "encryptVariableValuesInFileLines ref_platform [''T='' @ ?obj]
      [(''T'', ?obj)] ''KEY'' (ref_world [])
      = (Inr (updateEnvironmentFileLines [''T='' @ ?obj] ''T''
                (JSON_stringify ref_platform (envelope_object e)), 1), w')"
    by simp
  then have again: "\<exists>e w'. encryptVariableValuesInFileLines ref_platform [''T='' @ ?obj]
      [(''T'', ?obj)] ''KEY'' (ref_world [])
      = (Inr ([''T='' @ JSON_stringify ref_platform (envelope_object e)], 1), w')"
    by (auto simp: updateEnvironmentFileLines_def startsWith_def)
  from enc skip plain again show ?thesis by simp
qed

subsection \<open>The file is read once and written once\<close>


















subsection \<open>A second run finds nothing to encrypt: the lines\<close>


lemma newline_is_space: "is_space CHR 0x0A"
  by (simp add: is_space_def)















































subsection \<open>A second run finds nothing to encrypt: the file\<close>













end
